theory Spec2Isabelle
  imports Complex_Main "HOL-Library.AList"
begin

section \<open>Strings\<close>

text \<open>
  A JavaScript string is a sequence of UTF-16 code units. The model uses HOL strings, whose
  characters are the code units below 256 (ASCII and the Latin-1 block); on these the
  functions below are exactly the built-ins of the runtime. Of the white space and line
  terminators of ECMAScript, \<open>U+0009\<close> to \<open>U+000D\<close>, \<open>U+0020\<close> and \<open>U+00A0\<close> lie in
  that range, and \<open>U+000A\<close> and \<open>U+000D\<close> are the line terminators.
\<close>

definition is_line_terminator :: "char \<Rightarrow> bool" where
  "is_line_terminator c \<longleftrightarrow> c = CHR 0x0A \<or> c = CHR 0x0D"

definition is_space :: "char \<Rightarrow> bool" where
  "is_space c \<longleftrightarrow>
     c = CHR 0x09 \<or> c = CHR 0x0A \<or> c = CHR 0x0B \<or> c = CHR 0x0C \<or> c = CHR 0x0D \<or>
     c = CHR 0x20 \<or> c = CHR 0xA0"

text \<open>\<open>String.prototype.trim\<close>: white space and line terminators go from both ends.\<close>

definition trim :: "string \<Rightarrow> string" where
  "trim s = rev (dropWhile is_space (rev (dropWhile is_space s)))"

text \<open>
  \<open>String.prototype.toLowerCase\<close>: below 256 the letters with a lower-case partner are
  \<open>A\<close> to \<open>Z\<close> and \<open>U+00C0\<close> to \<open>U+00DE\<close> without the multiplication sign \<open>U+00D7\<close>;
  the partner is 32 code units up.
\<close>

definition lower_char :: "char \<Rightarrow> char" where
  "lower_char c =
     (let n = (of_char c :: nat) in
      if (65 \<le> n \<and> n \<le> 90) \<or> (192 \<le> n \<and> n \<le> 222 \<and> n \<noteq> 215)
      then char_of (n + 32) else c)"

definition toLowerCase :: "string \<Rightarrow> string" where
  "toLowerCase s = map lower_char s"

text \<open>The decimal text of a natural number, as \<open>ToString\<close> gives it for an integer.\<close>

fun show_nat :: "nat \<Rightarrow> string" where
  "show_nat n =
     (if n < 10 then [''0123456789'' ! n]
      else show_nat (n div 10) @ [''0123456789'' ! (n mod 10)])"

section \<open>Stripping comments from a configuration text\<close>

text \<open>
  \<open>removeJsonComments\<close> is four global regular-expression replacements and a trim. Each
  replacement scans the text from the left, replaces the leftmost match and goes on behind
  it; where nothing matches at a position the character is kept.

  \<^verbatim>\<open>.replace(/\/\/.*$/gm, '')\<close>: at \<open>//\<close> the greedy \<open>.*\<close> takes every character up to
  the next line terminator or the end of the text, where \<open>$\<close> holds under the \<open>m\<close> flag.
\<close>

function strip_line_comments :: "string \<Rightarrow> string" where
  "strip_line_comments [] = []"
| "strip_line_comments [c] = [c]"
| "strip_line_comments (c # d # cs) =
     (if c = CHR ''/'' \<and> d = CHR ''/''
      then strip_line_comments (dropWhile (\<lambda>x. \<not> is_line_terminator x) cs)
      else c # strip_line_comments (d # cs))"
  by pat_completeness auto
termination
proof (relation "measure length", goal_cases)
  case 1
  show ?case by simp
next
  case (2 c d cs)
  have "length (dropWhile (\<lambda>x. \<not> is_line_terminator x) cs) \<le> length cs"
    by (rule length_dropWhile_le)
  then show ?case by simp
next
  case 3
  then show ?case by simp
qed

text \<open>
  \<^verbatim>\<open>.replace(/\/\*[\s\S]*?\*\//g, '')\<close>: at \<open>/*\<close> the lazy middle part stops at the
  first \<open>*/\<close> that starts two or more characters later; without one there is no match
  here. \<open>after_block_end\<close> is the text behind that first \<open>*/\<close>.
\<close>

fun after_block_end :: "string \<Rightarrow> string option" where
  "after_block_end [] = None"
| "after_block_end [c] = None"
| "after_block_end (c # d # cs) =
     (if c = CHR ''*'' \<and> d = CHR ''/'' then Some cs else after_block_end (d # cs))"

lemma after_block_end_shorter: "after_block_end cs = Some r \<Longrightarrow> length r < length cs"
  by (induction cs arbitrary: r rule: after_block_end.induct) (auto split: if_splits)

function strip_block_comments :: "string \<Rightarrow> string" where
  "strip_block_comments [] = []"
| "strip_block_comments [c] = [c]"
| "strip_block_comments (c # d # cs) =
     (if c = CHR ''/'' \<and> d = CHR ''*''
      then (case after_block_end cs of
              Some rest \<Rightarrow> strip_block_comments rest
            | None \<Rightarrow> c # strip_block_comments (d # cs))
      else c # strip_block_comments (d # cs))"
  by pat_completeness auto
termination
  by (relation "measure length") (auto dest: after_block_end_shorter)

text \<open>
  \<^verbatim>\<open>.replace(/,\s*}/g, '}')\<close> and \<^verbatim>\<open>.replace(/,\s*]/g, ']')\<close>: at a comma the greedy
  \<open>\s*\<close> takes the whole run of white space; the closing character is no white space, so
  the match succeeds exactly when it comes next. The scan goes on behind the match.
\<close>

function strip_comma_before :: "char \<Rightarrow> string \<Rightarrow> string" where
  "strip_comma_before close [] = []"
| "strip_comma_before close (c # cs) =
     (if c = CHR '','' then
        (case dropWhile is_space cs of
           [] \<Rightarrow> c # strip_comma_before close cs
         | d # rest \<Rightarrow>
             if d = close then close # strip_comma_before close rest
             else c # strip_comma_before close cs)
      else c # strip_comma_before close cs)"
  by pat_completeness auto
termination
proof (relation "measure (\<lambda>(close, s). length s)", goal_cases)
  case 1
  show ?case by simp
next
  case (2 close c cs)
  then show ?case by simp
next
  case (3 close c cs d rest)
  have "length (dropWhile is_space cs) \<le> length cs"
    by (rule length_dropWhile_le)
  with 3 show ?case by simp
next
  case 4
  then show ?case by simp
next
  case 5
  then show ?case by simp
qed

definition removeJsonComments :: "string \<Rightarrow> string" where
  "removeJsonComments jsonString =
     trim (strip_comma_before CHR '']''
       (strip_comma_before CHR ''}''
         (strip_block_comments
           (strip_line_comments jsonString))))"

section \<open>JSON values and the objects built from them\<close>

text \<open>
  What \<open>JSON.parse\<close> returns. An object is the list of its properties in insertion order,
  with distinct keys; a number is the real it denotes (the tool computes with none).
  \<open>undefined\<close> is \<open>None\<close> of \<open>json option\<close>. That keys which are array indices are
  enumerated before the others is left to \<open>JSON.stringify\<close>, the only reader of the
  order.
\<close>

datatype json =
    JNull
  | JBool bool
  | JNum real
  | JStr string
  | JArr "json list"
  | JObj "(string \<times> json) list"

text \<open>\<open>ToBoolean\<close>, for the left operand of \<open>||\<close>.\<close>

fun truthy :: "json option \<Rightarrow> bool" where
  "truthy None = False"
| "truthy (Some JNull) = False"
| "truthy (Some (JBool b)) = b"
| "truthy (Some (JNum x)) = (x \<noteq> 0)"
| "truthy (Some (JStr s)) = (s \<noteq> [])"
| "truthy (Some (JArr xs)) = True"
| "truthy (Some (JObj ps)) = True"

text \<open>
  Reading a property whose name is neither an array index nor \<open>length\<close> nor inherited
  (the tool reads \<open>compilerOptions\<close> and \<open>scripts\<close>) from a value other than \<open>null\<close>:
  an object has it or not, every other value answers \<open>undefined\<close>. Reading from \<open>null\<close>
  throws a TypeError and is handled where it occurs.
\<close>

fun get_member :: "json \<Rightarrow> string \<Rightarrow> json option" where
  "get_member (JObj ps) name = map_of ps name"
| "get_member v name = None"

text \<open>
  The own enumerable properties that object spread copies: those of an object, the
  indexed elements of an array, the indexed code units of a string, and none of
  \<open>undefined\<close>, \<open>null\<close>, a boolean or a number.
\<close>

fun own_properties :: "json option \<Rightarrow> (string \<times> json) list" where
  "own_properties (Some (JObj ps)) = ps"
| "own_properties (Some (JArr xs)) = zip (map show_nat [0..<length xs]) xs"
| "own_properties (Some (JStr s)) = zip (map show_nat [0..<length s]) (map (\<lambda>c. JStr [c]) s)"
| "own_properties v = []"

text \<open>
  \<open>{ ...a, ...b }\<close> defines the properties of \<open>a\<close> and then those of \<open>b\<close> on a fresh
  object: a key that is there already keeps its place and takes the new value, a new key
  goes to the end.
\<close>

definition spread_into :: "(string \<times> json) list \<Rightarrow> (string \<times> json) list \<Rightarrow> (string \<times> json) list" where
  "spread_into target src = fold (\<lambda>(k, v). AList.update k v) src target"

section \<open>The process state and the runtime\<close>

text \<open>
  A path is the list of the arguments of \<open>process.chdir\<close> so far, followed by the relative
  path the tool names; no two of the tool's paths alias. File-system calls are taken to
  succeed: the model is of the runs in which the operating system refuses none of them.
  In particular no path that the tool writes as a file is a directory; where it is one,
  \<open>writeFileSync\<close> throws and the process stops, which the model does not show.
  The throw sites of the tool's own logic are all modelled: a command that fails, a text
  that \<open>JSON.parse\<close> rejects, and a property access that is a TypeError.
\<close>

type_synonym path = "string list"

text \<open>The pictograph that starts a console line, by the function that printed it.\<close>

datatype level = Step | Success | Warn | Error | Party | Plain

text \<open>
  Everything the tool does to the world is appended to a trace: a console line, a prompt
  of \<open>rl.question\<close>, a command handed to \<open>execSync\<close> with its \<open>quiet\<close> flag and exit
  status, \<open>mkdirSync\<close>, \<open>writeFileSync\<close> with the content, \<open>process.chdir\<close>.
\<close>

datatype event =
    Logged level string
  | Prompted string
  | Ran string bool nat
  | MadeDir path
  | Wrote path string
  | ChangedDir string

record state =
  cwd :: "string list"
  files :: "path \<rightharpoonup> string"
  dirs :: "path set"
  stdin :: "string list"
  trace :: "event list"

text \<open>
  The built-ins the tool calls and this development does not define: \<open>JSON.parse\<close>
  (\<open>None\<close> is its SyntaxError), \<open>JSON.stringify(data, null, 2)\<close>, and the external
  command behind \<open>execSync\<close>, which runs in the working directory, may change files and
  directories, and returns an exit status (\<open>execSync\<close> throws when it is not 0).
\<close>

record runtime =
  JSON_parse :: "string \<Rightarrow> json option"
  JSON_stringify :: "json \<Rightarrow> string"
  execSync :: "string \<Rightarrow> string list \<Rightarrow> (path \<rightharpoonup> string) \<times> path set
                 \<Rightarrow> nat \<times> (path \<rightharpoonup> string) \<times> path set"

text \<open>
  The process goes on, or it has stopped: by \<open>process.exit\<close> with a status, by an
  exception nobody catches (node prints it and exits with status 1), or because
  \<open>rl.question\<close> waits for a line that does not come.
\<close>

datatype outcome = Exited nat | Uncaught string | NoInput

datatype proc = Running state | Stopped outcome state

fun final_state :: "proc \<Rightarrow> state" where
  "final_state (Running s) = s"
| "final_state (Stopped oc s) = s"

fun outcome_of :: "proc \<Rightarrow> outcome option" where
  "outcome_of (Running s) = None"
| "outcome_of (Stopped oc s) = Some oc"

text \<open>Sequencing: nothing runs after the process has stopped.\<close>

fun and_then :: "proc \<Rightarrow> (state \<Rightarrow> proc) \<Rightarrow> proc" where
  "and_then (Running s) f = f s"
| "and_then (Stopped oc s) f = Stopped oc s"

definition emit_event :: "event \<Rightarrow> state \<Rightarrow> state" where
  "emit_event e s = s\<lparr>trace := trace s @ [e]\<rparr>"

definition logStep :: "string \<Rightarrow> state \<Rightarrow> state" where
  "logStep message s = emit_event (Logged Step message) s"

definition logSuccess :: "string \<Rightarrow> state \<Rightarrow> state" where
  "logSuccess message s = emit_event (Logged Success message) s"

definition logWarn :: "string \<Rightarrow> state \<Rightarrow> state" where
  "logWarn message s = emit_event (Logged Warn message) s"

definition logError :: "string \<Rightarrow> state \<Rightarrow> state" where
  "logError message s = emit_event (Logged Error message) s"

definition resolve :: "state \<Rightarrow> string \<Rightarrow> path" where
  "resolve s p = cwd s @ [p]"

definition existsSync :: "string \<Rightarrow> state \<Rightarrow> bool" where
  "existsSync p s \<longleftrightarrow> files s (resolve s p) \<noteq> None \<or> resolve s p \<in> dirs s"

text \<open>\<open>None\<close>: there is no such file to read, and \<open>readFileSync\<close> throws.\<close>

definition readFileSync :: "string \<Rightarrow> state \<Rightarrow> string option" where
  "readFileSync p s = files s (resolve s p)"

definition writeFileSync :: "string \<Rightarrow> string \<Rightarrow> state \<Rightarrow> state" where
  "writeFileSync p content s =
     emit_event (Wrote (resolve s p) content) (s\<lparr>files := (files s)(resolve s p \<mapsto> content)\<rparr>)"

definition mkdirSync :: "string \<Rightarrow> state \<Rightarrow> state" where
  "mkdirSync p s = emit_event (MadeDir (resolve s p)) (s\<lparr>dirs := insert (resolve s p) (dirs s)\<rparr>)"

definition chdir :: "string \<Rightarrow> state \<Rightarrow> state" where
  "chdir p s = emit_event (ChangedDir p) (s\<lparr>cwd := cwd s @ [p]\<rparr>)"

text \<open>
  \<open>rl.question\<close> prints the prompt and hands the next line of the input to the callback.
\<close>

definition question :: "string \<Rightarrow> (string \<Rightarrow> state \<Rightarrow> proc) \<Rightarrow> state \<Rightarrow> proc" where
  "question prompt callback s =
     (let s' = emit_event (Prompted prompt) s in
      case stdin s' of
        [] \<Rightarrow> Stopped NoInput s'
      | line # rest \<Rightarrow> callback line (s'\<lparr>stdin := rest\<rparr>))"

section \<open>The functions of the tool\<close>

definition readJson :: "runtime \<Rightarrow> string \<Rightarrow> state \<Rightarrow> json \<times> state" where
  "readJson rt filePath s =
     (if \<not> existsSync filePath s then (JObj [], s)
      else
        (case (case readFileSync filePath s of
                 None \<Rightarrow> None
               | Some text \<Rightarrow> JSON_parse rt text) of
           Some v \<Rightarrow> (v, s)
         | None \<Rightarrow> (JObj [], logWarn (''Failed to parse '' @ filePath @ '', using empty object.'') s)))"

definition safeExec :: "runtime \<Rightarrow> string \<Rightarrow> bool \<Rightarrow> state \<Rightarrow> proc" where
  "safeExec rt command quiet s =
     (case execSync rt command (cwd s) (files s, dirs s) of
        (status, fs, ds) \<Rightarrow>
          (let s' = emit_event (Ran command quiet status) (s\<lparr>files := fs, dirs := ds\<rparr>) in
           if status = 0 then Running s'
           else Stopped (Exited 1) (logError (''Command failed: '' @ command) s')))"

definition writeJson :: "runtime \<Rightarrow> string \<Rightarrow> json \<Rightarrow> state \<Rightarrow> state" where
  "writeJson rt filePath data s = writeFileSync filePath (JSON_stringify rt data) s"

definition createGitAndIgnore :: "runtime \<Rightarrow> state \<Rightarrow> proc" where
  "createGitAndIgnore rt s =
     and_then (safeExec rt ''git init'' True (logStep ''Initializing Git...'' s))
       (\<lambda>s. Running
          (logSuccess ''Git initialized and .gitignore created''
            (writeFileSync ''.gitignore''
              (trim ''\<newline># Node.js dependencies\<newline>node_modules/\<newline>\<newline># Build output\<newline>dist/\<newline>\<newline># Logs\<newline>logs/\<newline>*.log\<newline>\<newline># OS files\<newline>.DS_Store\<newline>Thumbs.db\<newline>'')
              (logStep ''Creating .gitignore...'' s))))"

definition default_compilerOptions :: "(string \<times> json) list" where
  "default_compilerOptions =
     [(''module'', JStr ''ESNext''),
      (''target'', JStr ''ES2020''),
      (''outDir'', JStr ''dist''),
      (''rootDir'', JStr ''src''),
      (''strict'', JBool True),
      (''esModuleInterop'', JBool True),
      (''moduleResolution'', JStr ''node'')]"

text \<open>The object \<open>tsconfig\<close> of \<open>setupTsConfig\<close> with the given \<open>compilerOptions\<close>.\<close>

definition tsconfig_with :: "(string \<times> json) list \<Rightarrow> json" where
  "tsconfig_with options =
     JObj [(''compilerOptions'', JObj options),
           (''include'', JArr [JStr ''src/**/*'']),
           (''exclude'', JArr [JStr ''node_modules'', JStr ''dist''])]"

text \<open>
  The \<open>try\<close> block of \<open>setupTsConfig\<close>: the new \<open>compilerOptions\<close>, or \<open>None\<close> when it
  throws (the file cannot be read, \<open>JSON.parse\<close> rejects the stripped text, or the text is
  \<open>null\<close>, whose \<open>compilerOptions\<close> cannot be read).
\<close>

definition merged_compilerOptions :: "runtime \<Rightarrow> string option \<Rightarrow> (string \<times> json) list option" where
  "merged_compilerOptions rt file =
     (case file of
        None \<Rightarrow> None
      | Some content \<Rightarrow>
          (case JSON_parse rt (removeJsonComments content) of
             None \<Rightarrow> None
           | Some JNull \<Rightarrow> None
           | Some parsed \<Rightarrow>
               Some (spread_into
                      (spread_into [] (own_properties (get_member parsed ''compilerOptions'')))
                      default_compilerOptions)))"

definition setupTsConfig :: "runtime \<Rightarrow> state \<Rightarrow> state" where
  "setupTsConfig rt s =
     (let tsconfigPath = ''tsconfig.json'' in
      logSuccess ''tsconfig.json ready''
        (if existsSync tsconfigPath s then
           (case merged_compilerOptions rt (readFileSync tsconfigPath s) of
              Some options \<Rightarrow> writeJson rt tsconfigPath (tsconfig_with options) s
            | None \<Rightarrow>
                writeJson rt tsconfigPath (tsconfig_with default_compilerOptions)
                  (logWarn ''Failed to parse existing tsconfig.json, using default.'' s))
         else writeJson rt tsconfigPath (tsconfig_with default_compilerOptions) s))"

text \<open>
  The port handed to \<open>createSrcMain\<close> is \<open>port.trim() || 3000\<close>: the trimmed answer, a
  string, or the number 3000. The template literal turns it into text.
\<close>

datatype port_value = PortText string | PortNumber nat

fun port_text :: "port_value \<Rightarrow> string" where
  "port_text (PortText t) = t"
| "port_text (PortNumber n) = show_nat n"

definition template_head :: string where
  \<open>template_head = ''\<newline>import express from "express";\<newline>import type { Request, Response } from "express";\<newline>\<newline>const app = express();\<newline>const port = process.env.PORT || ''\<close>

definition template_tail :: string where
  \<open>template_tail = '';\<newline>\<newline>app.get("/", (req: Request, res: Response) => {\<newline>    res.send("Hello, TypeScript + Express!");\<newline>});\<newline>\<newline>app.listen(port, () => {\<newline>    console.log(`Server running at http://localhost:${port}`);\<newline>});\<newline>''\<close>

definition createSrcMain :: "port_value \<Rightarrow> state \<Rightarrow> state" where
  "createSrcMain port s =
     logSuccess ''src/main.ts created''
       (writeFileSync ''src/main.ts'' (template_head @ port_text port @ template_tail)
         (mkdirSync ''src'' s))"

definition createProjectDir :: "string \<Rightarrow> state \<Rightarrow> state" where
  "createProjectDir projectName s =
     logSuccess (''Project directory '' @ [CHR 0x27] @ projectName @ [CHR 0x27] @ '' created and entered'')
       (chdir projectName (mkdirSync projectName s))"

definition initNpm :: "runtime \<Rightarrow> bool \<Rightarrow> state \<Rightarrow> proc" where
  "initNpm rt useDefault s =
     and_then
       (safeExec rt (if useDefault then ''npm init -y'' else ''npm init'') False
         (logStep ''Initializing npm...'' s))
       (\<lambda>s. Running (logSuccess ''npm initialized'' s))"

definition setPackageModule :: "runtime \<Rightarrow> state \<Rightarrow> proc" where
  "setPackageModule rt s =
     and_then
       (safeExec rt ''npm pkg set type=module'' False (logStep ''Setting package type to module...'' s))
       (\<lambda>s. Running (logSuccess ''Package type set to module'' s))"

text \<open>
  The three assignments of \<open>addPackageScripts\<close> on the parsed manifest, as the value that
  \<open>JSON.stringify\<close> will see; \<open>None\<close> is a TypeError. The file is a module, so its code is
  strict: reading \<open>scripts\<close> of \<open>null\<close> throws, and so does creating a property on a
  boolean, a number or a string. A named property put on an array is kept by the array
  and left out by \<open>JSON.stringify\<close>.
\<close>

definition scripts_added :: "json \<Rightarrow> json option" where
  "scripts_added pkg =
     (case pkg of
        JObj ps \<Rightarrow>
          (let scripts = (if truthy (map_of ps ''scripts'') then the (map_of ps ''scripts'')
                          else JObj []) in
           case scripts of
             JObj sc \<Rightarrow>
               Some (JObj (AList.update ''scripts''
                 (JObj (AList.update ''start'' (JStr ''node dist/main.js'')
                         (AList.update ''build'' (JStr ''tsc'')
                           (AList.update ''dev'' (JStr ''nodemon'') sc)))) ps))
           | JArr xs \<Rightarrow> Some (JObj (AList.update ''scripts'' (JArr xs) ps))
           | _ \<Rightarrow> None)
      | JArr xs \<Rightarrow> Some (JArr xs)
      | _ \<Rightarrow> None)"

definition addPackageScripts :: "runtime \<Rightarrow> state \<Rightarrow> proc" where
  "addPackageScripts rt s =
     (let pkgPath = ''package.json'' in
      case readJson rt pkgPath (logStep ''Adding scripts to package.json...'' s) of
        (pkg, s1) \<Rightarrow>
          (case scripts_added pkg of
             None \<Rightarrow> Stopped (Uncaught ''TypeError'') s1
           | Some pkg' \<Rightarrow>
               Running (logSuccess ''Scripts added to package.json'' (writeJson rt pkgPath pkg' s1))))"

definition configureNodemon :: "runtime \<Rightarrow> state \<Rightarrow> state" where
  "configureNodemon rt s =
     logSuccess ''nodemon.json created''
       (writeJson rt ''nodemon.json''
         (JObj [(''watch'', JArr [JStr ''src'']),
                (''ext'', JStr ''ts''),
                (''exec'', JStr ''node --loader ts-node/esm src/main.ts'')])
         (logStep ''Configuring nodemon.json...'' s))"

section \<open>The workflow\<close>

text \<open>
  \<open>createProject\<close> registers one handler for each event name and emits the first; a
  handler ends by emitting the next name, which runs that handler at once. The handler
  of \<open>error\<close> is never reached: nothing emits that name. The values computed from the
  three answers keep the names the source gives them.
\<close>

definition projectName_of :: "string \<Rightarrow> string" where
  "projectName_of name = (if trim name = [] then ''my-app'' else trim name)"

definition useDefault_of :: "string \<Rightarrow> bool" where
  "useDefault_of answer \<longleftrightarrow> toLowerCase (trim answer) \<noteq> ''n''"

definition portNumber_of :: "string \<Rightarrow> port_value" where
  "portNumber_of port = (if trim port = [] then PortNumber 3000 else PortText (trim port))"

definition on_finish :: "string \<Rightarrow> state \<Rightarrow> proc" where
  "on_finish projectName s =
     Stopped (Exited 0)
       (emit_event (Logged Party ''Project created successfully!'')
         (emit_event
           (Logged Plain (''\<newline>Run:\<newline>  cd '' @ projectName @ ''\<newline>  npm run dev\<newline>  npm run build\<newline>  npm start\<newline>''))
           (logSuccess (''Project '' @ projectName @ '' created!'') s)))"

definition on_configure_nodemon :: "runtime \<Rightarrow> string \<Rightarrow> state \<Rightarrow> proc" where
  "on_configure_nodemon rt projectName s = on_finish projectName (configureNodemon rt s)"

definition on_add_package_scripts :: "runtime \<Rightarrow> string \<Rightarrow> state \<Rightarrow> proc" where
  "on_add_package_scripts rt projectName s =
     and_then (addPackageScripts rt s) (on_configure_nodemon rt projectName)"

definition on_install_dependencies :: "runtime \<Rightarrow> string \<Rightarrow> state \<Rightarrow> proc" where
  "on_install_dependencies rt projectName s =
     and_then (safeExec rt ''npm install express'' False (logStep ''Installing dependencies...'' s))
       (\<lambda>s. and_then
          (safeExec rt ''npm install -D typescript ts-node nodemon @types/node @types/express'' False s)
          (\<lambda>s. on_add_package_scripts rt projectName (logSuccess ''Dependencies installed'' s)))"

definition on_initialize_git :: "runtime \<Rightarrow> string \<Rightarrow> state \<Rightarrow> proc" where
  "on_initialize_git rt projectName s =
     and_then (createGitAndIgnore rt s) (on_install_dependencies rt projectName)"

definition on_setup_tsconfig :: "runtime \<Rightarrow> string \<Rightarrow> state \<Rightarrow> proc" where
  "on_setup_tsconfig rt projectName s =
     question ''Enter port number (default: 3000): ''
       (\<lambda>port s. on_initialize_git rt projectName (createSrcMain (portNumber_of port) s))
       (setupTsConfig rt s)"

definition on_use_default_npm_init :: "runtime \<Rightarrow> string \<Rightarrow> state \<Rightarrow> proc" where
  "on_use_default_npm_init rt projectName s =
     question ''Use default npm init? (Y/n): ''
       (\<lambda>answer s.
          and_then (initNpm rt (useDefault_of answer) s)
            (\<lambda>s. and_then (setPackageModule rt s) (on_setup_tsconfig rt projectName)))
       s"

definition on_initialize_project :: "runtime \<Rightarrow> state \<Rightarrow> proc" where
  "on_initialize_project rt s =
     question ''Enter project name (default: my-app): ''
       (\<lambda>name s.
          on_use_default_npm_init rt (projectName_of name)
            (createProjectDir (projectName_of name) s))
       s"

text \<open>
  A run: the process starts in its working directory with the files and directories
  that are there and the lines that will come on its input.
\<close>

definition initial_state :: "(path \<rightharpoonup> string) \<Rightarrow> path set \<Rightarrow> string list \<Rightarrow> state" where
  "initial_state fs ds input = \<lparr>cwd = [], files = fs, dirs = ds, stdin = input, trace = []\<rparr>"

definition createProject :: "runtime \<Rightarrow> (path \<rightharpoonup> string) \<Rightarrow> path set \<Rightarrow> string list \<Rightarrow> proc" where
  "createProject rt fs ds input = on_initialize_project rt (initial_state fs ds input)"

section \<open>Reading a trace\<close>

text \<open>The commands of a trace that exited with a status other than 0, in order.\<close>

fun failed :: "event list \<Rightarrow> string list" where
  "failed [] = []"
| "failed (Ran command quiet status # es) =
     (if status = 0 then failed es else command # failed es)"
| "failed (e # es) = failed es"

text \<open>The relative paths that were handed to \<open>writeFileSync\<close>, in order.\<close>

fun written :: "event list \<Rightarrow> string list" where
  "written [] = []"
| "written (Wrote p content # es) = last p # written es"
| "written (e # es) = written es"

text \<open>
  A step started in a state that satisfies \<open>P\<close> goes on in a state that satisfies \<open>R\<close>
  or stops with an outcome and a state that satisfy \<open>Q\<close>.
\<close>

definition triple ::
  "(state \<Rightarrow> bool) \<Rightarrow> (state \<Rightarrow> proc) \<Rightarrow> (state \<Rightarrow> bool) \<Rightarrow> (outcome \<Rightarrow> state \<Rightarrow> bool) \<Rightarrow> bool" where
  "triple P f R Q \<longleftrightarrow>
     (\<forall>s. P s \<longrightarrow> (case f s of Running s' \<Rightarrow> R s' | Stopped oc s' \<Rightarrow> Q oc s'))"

text \<open>
  No command of the trace has failed; and what a run that stops looks like: either no
  command has failed, or the process exits with status 1 and the trace ends with the one
  command that failed and the error line that names it.
\<close>

definition clean :: "state \<Rightarrow> bool" where
  "clean s \<longleftrightarrow> failed (trace s) = []"

definition fatal :: "outcome \<Rightarrow> state \<Rightarrow> bool" where
  "fatal oc s \<longleftrightarrow>
     failed (trace s) = [] \<or>
     (oc = Exited 1 \<and>
      (\<exists>pre c q st. trace s = pre @ [Ran c q st, Logged Error (''Command failed: '' @ c)] \<and>
         st \<noteq> 0 \<and> failed pre = []))"

text \<open>
  The two commands of the installation step; a state in which no command has failed and
  \<open>nodemon.json\<close> has not been written; such a state in which \<open>src/main.ts\<close> has been
  written; and what a stop means for the installation: if one of its commands has failed,
  the process exits with status 1, \<open>nodemon.json\<close> has not been written and
  \<open>src/main.ts\<close> has.
\<close>

definition install_commands :: "string list" where
  "install_commands =
     [''npm install express'',
      ''npm install -D typescript ts-node nodemon @types/node @types/express'']"

definition before_nodemon :: "state \<Rightarrow> bool" where
  "before_nodemon s \<longleftrightarrow> failed (trace s) = [] \<and> ''nodemon.json'' \<notin> set (written (trace s))"

definition entry_written :: "state \<Rightarrow> bool" where
  "entry_written s \<longleftrightarrow> before_nodemon s \<and> ''src/main.ts'' \<in> set (written (trace s))"

definition install_halt :: "outcome \<Rightarrow> state \<Rightarrow> bool" where
  "install_halt oc s \<longleftrightarrow>
     (\<forall>c \<in> set (failed (trace s)). c \<in> set install_commands \<longrightarrow>
        oc = Exited 1 \<and>
        ''nodemon.json'' \<notin> set (written (trace s)) \<and>
        ''src/main.ts'' \<in> set (written (trace s)))"

section \<open>Sample inputs\<close>

text \<open>
  A runtime for concrete runs: \<open>JSON.parse\<close> by a table of texts and their values (every
  other text is rejected), a placeholder for the text of \<open>JSON.stringify\<close>, and commands
  that change nothing and fail exactly when they are listed.
\<close>

definition sample_runtime :: "(string \<times> json) list \<Rightarrow> string list \<Rightarrow> runtime" where
  "sample_runtime parses failing =
     \<lparr>JSON_parse = map_of parses,
      JSON_stringify = (\<lambda>data. ''<json>''),
      execSync = (\<lambda>command dir world. (if command \<in> set failing then 1 else 0, world))\<rparr>"

text \<open>A state inside the project directory \<open>demo\<close> with the given files.\<close>

definition sample_state :: "(string \<times> string) list \<Rightarrow> string list \<Rightarrow> state" where
  "sample_state disk input =
     \<lparr>cwd = [''demo''], files = map_of (map (\<lambda>(p, t). ([''demo'', p], t)) disk),
      dirs = {[''demo'']}, stdin = input, trace = []\<rparr>"

text \<open>
  An older configuration file with a comment and trailing commas, the text that is left
  of it, and its value.
\<close>

definition old_tsconfig :: string where
  \<open>old_tsconfig = ''{"compilerOptions": {"strict": false, "noEmit": true,}, // old\<newline>}''\<close>

definition old_tsconfig_stripped :: string where
  \<open>old_tsconfig_stripped = ''{"compilerOptions": {"strict": false, "noEmit": true}}''\<close>

definition old_tsconfig_value :: json where
  "old_tsconfig_value =
     JObj [(''compilerOptions'', JObj [(''strict'', JBool False), (''noEmit'', JBool True)])]"


text \<open>
  A manifest with a script of its own and an old \<open>start\<close> script, and a manifest whose
  \<open>scripts\<close> member is a text; each with its value.
\<close>

definition lint_manifest_text :: string where
  \<open>lint_manifest_text = ''{"name": "demo", "scripts": {"lint": "eslint .", "start": "node old.js"}}''\<close>

definition lint_manifest :: json where
  "lint_manifest =
     JObj [(''name'', JStr ''demo''),
           (''scripts'', JObj [(''lint'', JStr ''eslint .''), (''start'', JStr ''node old.js'')])]"

definition odd_manifest_text :: string where
  \<open>odd_manifest_text = ''{"name": "demo", "scripts": "x"}''\<close>

definition odd_manifest :: json where
  "odd_manifest = JObj [(''name'', JStr ''demo''), (''scripts'', JStr ''x'')]"

text \<open>
  Two configuration files without any comment, each with its value, and what is left of
  their texts: one whose \<open>typeRoots\<close> pattern holds \<open>/**/\<close>, one whose \<open>mapRoot\<close>
  is an address. The runtime that reads them knows the value of each file as it is and
  of the first text as it is left; it rejects what is left of the second, which is no
  JSON text.
\<close>

definition globs_tsconfig :: string where
  \<open>globs_tsconfig = ''{"compilerOptions": {"typeRoots": ["types/**/*"], "noEmit": true}}''\<close>

definition globs_tsconfig_value :: json where
  "globs_tsconfig_value =
     JObj [(''compilerOptions'',
            JObj [(''typeRoots'', JArr [JStr ''types/**/*'']), (''noEmit'', JBool True)])]"

definition globs_tsconfig_stripped :: string where
  \<open>globs_tsconfig_stripped = ''{"compilerOptions": {"typeRoots": ["types*"], "noEmit": true}}''\<close>

definition globs_tsconfig_stripped_value :: json where
  "globs_tsconfig_stripped_value =
     JObj [(''compilerOptions'',
            JObj [(''typeRoots'', JArr [JStr ''types*'']), (''noEmit'', JBool True)])]"

definition url_tsconfig :: string where
  \<open>url_tsconfig = ''{"compilerOptions": {"mapRoot": "https://example.com/maps/", "noEmit": true}}''\<close>

definition url_tsconfig_value :: json where
  "url_tsconfig_value =
     JObj [(''compilerOptions'',
            JObj [(''mapRoot'', JStr ''https://example.com/maps/''), (''noEmit'', JBool True)])]"

definition url_tsconfig_stripped :: string where
  \<open>url_tsconfig_stripped = ''{"compilerOptions": {"mapRoot": "https:''\<close>

definition reading_runtime :: runtime where
  "reading_runtime =
     sample_runtime
       [(globs_tsconfig, globs_tsconfig_value),
        (globs_tsconfig_stripped, globs_tsconfig_stripped_value),
        (url_tsconfig, url_tsconfig_value)] []"

section \<open>Merging an existing configuration\<close>

text \<open>The effects on the state, to be unfolded together.\<close>

lemmas effect_defs =
  emit_event_def logStep_def logSuccess_def logWarn_def logError_def
  writeFileSync_def mkdirSync_def chdir_def writeJson_def resolve_def

lemma map_of_spread_into:
  "distinct (map fst src) \<Longrightarrow> map_of (spread_into target src) = map_of target ++ map_of src"
proof (induction src arbitrary: target)
  case Nil
  then show ?case by (simp add: spread_into_def)
next
  case (Cons p src)
  obtain k v where p: "p = (k, v)" by (cases p)
  from Cons.prems p have fresh: "k \<notin> fst ` set src" and d: "distinct (map fst src)"
    by auto
  have "map_of (spread_into target (p # src)) = map_of (spread_into (AList.update k v target) src)"
    by (simp add: spread_into_def p)
  also have "\<dots> = map_of (AList.update k v target) ++ map_of src"
    using Cons.IH [OF d] .
  also have "\<dots> = (map_of target)(k \<mapsto> v) ++ map_of src"
    by (simp add: update_conv')
  also have "\<dots> = map_of target ++ map_of (p # src)"
  proof (rule ext)
    fix x
    from fresh have "map_of src k = None"
      by (simp add: map_of_eq_None_iff)
    then show "((map_of target)(k \<mapsto> v) ++ map_of src) x = (map_of target ++ map_of (p # src)) x"
      by (auto simp: map_add_def p split: option.splits)
  qed
  finally show ?case .
qed

lemma distinct_default_keys: "distinct (map fst default_compilerOptions)"
  by (simp add: default_compilerOptions_def)

lemma merged_has_defaults:
  "map_of (spread_into target default_compilerOptions) key =
     (case map_of default_compilerOptions key of Some v \<Rightarrow> Some v | None \<Rightarrow> map_of target key)"
  by (simp add: map_of_spread_into [OF distinct_default_keys] map_add_def)

lemma existsSync_file: "files s (resolve s p) = Some t \<Longrightarrow> existsSync p s"
  by (simp add: existsSync_def)

lemma old_tsconfig_strips: "removeJsonComments old_tsconfig = old_tsconfig_stripped"
  by (simp add: removeJsonComments_def old_tsconfig_def old_tsconfig_stripped_def trim_def
      is_space_def is_line_terminator_def)



text \<open>
  The merge itself loses nothing: when the stripped text parses and the parsed value has
  an object \<open>compilerOptions\<close> (its keys distinct, as the keys of an object are), every
  key of that object that is not one of the seven canonical keys is in the
  \<open>compilerOptions\<close> that \<open>setupTsConfig\<close> writes, with the value it has in the parsed
  value of the stripped text. That value need not be the one the file holds.
\<close>

lemma merge_keeps_parsed_options:
  assumes present: "files s (resolve s ''tsconfig.json'') = Some content"
    and parse: "JSON_parse rt (removeJsonComments content) = Some parsed"
    and options: "get_member parsed ''compilerOptions'' = Some (JObj opts)"
    and keys: "distinct (map fst opts)"
    and entry: "map_of opts key = Some v"
    and other: "key \<notin> set (map fst default_compilerOptions)"
  shows "setupTsConfig rt s =
           logSuccess ''tsconfig.json ready''
             (writeJson rt ''tsconfig.json''
               (tsconfig_with (spread_into (spread_into [] opts) default_compilerOptions)) s) \<and>
         map_of (spread_into (spread_into [] opts) default_compilerOptions) key = Some v"
proof -
  from options obtain ps where obj: "parsed = JObj ps"
    and member: "map_of ps ''compilerOptions'' = Some (JObj opts)"
    by (cases parsed) auto
  from parse obj member have
    "merged_compilerOptions rt (Some content) =
       Some (spread_into (spread_into [] opts) default_compilerOptions)"
    by (simp add: merged_compilerOptions_def)
  with present have run: "setupTsConfig rt s =
           logSuccess ''tsconfig.json ready''
             (writeJson rt ''tsconfig.json''
               (tsconfig_with (spread_into (spread_into [] opts) default_compilerOptions)) s)"
    by (simp add: setupTsConfig_def existsSync_file readFileSync_def)
  from other have "map_of default_compilerOptions key = None"
    by (simp add: map_of_eq_None_iff)
  then have "map_of (spread_into (spread_into [] opts) default_compilerOptions) key =
      map_of (spread_into [] opts) key"
    by (simp add: merged_has_defaults)
  also have "\<dots> = map_of opts key"
    by (simp add: map_of_spread_into [OF keys])
  finally show ?thesis using run entry by simp
qed

lemma merge_keeps_parsed_options_example:
  "files (sample_state [(''tsconfig.json'', old_tsconfig)] [])
     (resolve (sample_state [(''tsconfig.json'', old_tsconfig)] []) ''tsconfig.json'')
     = Some old_tsconfig \<and>
   JSON_parse (sample_runtime [(old_tsconfig_stripped, old_tsconfig_value)] [])
     (removeJsonComments old_tsconfig) = Some old_tsconfig_value \<and>
   get_member old_tsconfig_value ''compilerOptions'' =
     Some (JObj [(''strict'', JBool False), (''noEmit'', JBool True)]) \<and>
   distinct (map fst [(''strict'', JBool False), (''noEmit'', JBool True)]) \<and>
   map_of [(''strict'', JBool False), (''noEmit'', JBool True)] ''noEmit'' = Some (JBool True) \<and>
   ''noEmit'' \<notin> set (map fst default_compilerOptions) \<and>
   map_of (spread_into (spread_into [] [(''strict'', JBool False), (''noEmit'', JBool True)])
             default_compilerOptions) ''noEmit'' = Some (JBool True) \<and>
   spread_into (spread_into [] [(''strict'', JBool False), (''noEmit'', JBool True)])
             default_compilerOptions =
     [(''strict'', JBool True), (''noEmit'', JBool True), (''module'', JStr ''ESNext''),
      (''target'', JStr ''ES2020''), (''outDir'', JStr ''dist''), (''rootDir'', JStr ''src''),
      (''esModuleInterop'', JBool True), (''moduleResolution'', JStr ''node'')]"
proof -
  have present: "files (sample_state [(''tsconfig.json'', old_tsconfig)] [])
      (resolve (sample_state [(''tsconfig.json'', old_tsconfig)] []) ''tsconfig.json'')
      = Some old_tsconfig"
    by (simp add: sample_state_def resolve_def)
  have parse: "JSON_parse (sample_runtime [(old_tsconfig_stripped, old_tsconfig_value)] [])
      (removeJsonComments old_tsconfig) = Some old_tsconfig_value"
    by (simp add: sample_runtime_def old_tsconfig_strips)
  have options: "get_member old_tsconfig_value ''compilerOptions'' =
      Some (JObj [(''strict'', JBool False), (''noEmit'', JBool True)])"
    by (simp add: old_tsconfig_value_def)
  have keys: "distinct (map fst [(''strict'', JBool False), (''noEmit'', JBool True)])"
    by simp
  have entry: "map_of [(''strict'', JBool False), (''noEmit'', JBool True)] ''noEmit'' = Some (JBool True)"
    by simp
  have other: "''noEmit'' \<notin> set (map fst default_compilerOptions)"
    by (simp add: default_compilerOptions_def)
  have result: "spread_into (spread_into [] [(''strict'', JBool False), (''noEmit'', JBool True)])
             default_compilerOptions =
     [(''strict'', JBool True), (''noEmit'', JBool True), (''module'', JStr ''ESNext''),
      (''target'', JStr ''ES2020''), (''outDir'', JStr ''dist''), (''rootDir'', JStr ''src''),
      (''esModuleInterop'', JBool True), (''moduleResolution'', JStr ''node'')]"
    by (simp add: spread_into_def default_compilerOptions_def)
  from merge_keeps_parsed_options [OF present parse options keys entry other]
    present parse options keys entry other result
  show ?thesis by blast
qed

lemma globs_tsconfig_strips: "removeJsonComments globs_tsconfig = globs_tsconfig_stripped"
  by (simp add: removeJsonComments_def globs_tsconfig_def globs_tsconfig_stripped_def trim_def
      is_space_def is_line_terminator_def)

lemma url_tsconfig_strips: "removeJsonComments url_tsconfig = url_tsconfig_stripped"
  by (simp add: removeJsonComments_def url_tsconfig_def url_tsconfig_stripped_def trim_def
      is_space_def is_line_terminator_def)

lemma setupTsConfig_sample:
  "setupTsConfig rt (sample_state [(''tsconfig.json'', content)] []) =
     logSuccess ''tsconfig.json ready''
       (case merged_compilerOptions rt (Some content) of
          Some options \<Rightarrow>
            writeJson rt ''tsconfig.json'' (tsconfig_with options)
              (sample_state [(''tsconfig.json'', content)] [])
        | None \<Rightarrow>
            writeJson rt ''tsconfig.json'' (tsconfig_with default_compilerOptions)
              (logWarn ''Failed to parse existing tsconfig.json, using default.''
                (sample_state [(''tsconfig.json'', content)] [])))"
proof -
  have "files (sample_state [(''tsconfig.json'', content)] [])
      (resolve (sample_state [(''tsconfig.json'', content)] []) ''tsconfig.json'') = Some content"
    by (simp add: sample_state_def resolve_def)
  then show ?thesis
    by (simp add: setupTsConfig_def Let_def existsSync_file readFileSync_def split: option.splits)
qed

text \<open>
  C2. Two existing configuration files without any comment whose options
  \<open>setupTsConfig\<close> does not keep. In the first, \<open>/**/\<close> inside the \<open>typeRoots\<close> pattern
  is taken for a block comment before the text is parsed, and the option is written with
  the value \<open>types*\<close>. In the second, the text is cut at the \<open>//\<close> of the address, what
  is left does not parse, and the defaults are written with a warning: \<open>mapRoot\<close> and
  \<open>noEmit\<close> are gone.
\<close>

theorem setupTsConfig_alters_existing_options:
  "JSON_parse reading_runtime globs_tsconfig = Some globs_tsconfig_value \<and>
   removeJsonComments globs_tsconfig = globs_tsconfig_stripped \<and>
   setupTsConfig reading_runtime (sample_state [(''tsconfig.json'', globs_tsconfig)] []) =
     logSuccess ''tsconfig.json ready''
       (writeJson reading_runtime ''tsconfig.json''
          (tsconfig_with
             [(''typeRoots'', JArr [JStr ''types*'']),
              (''noEmit'', JBool True),
              (''module'', JStr ''ESNext''),
              (''target'', JStr ''ES2020''),
              (''outDir'', JStr ''dist''),
              (''rootDir'', JStr ''src''),
              (''strict'', JBool True),
              (''esModuleInterop'', JBool True),
              (''moduleResolution'', JStr ''node'')])
          (sample_state [(''tsconfig.json'', globs_tsconfig)] [])) \<and>
   JSON_parse reading_runtime url_tsconfig = Some url_tsconfig_value \<and>
   removeJsonComments url_tsconfig = url_tsconfig_stripped \<and>
   setupTsConfig reading_runtime (sample_state [(''tsconfig.json'', url_tsconfig)] []) =
     logSuccess ''tsconfig.json ready''
       (writeJson reading_runtime ''tsconfig.json'' (tsconfig_with default_compilerOptions)
          (logWarn ''Failed to parse existing tsconfig.json, using default.''
             (sample_state [(''tsconfig.json'', url_tsconfig)] [])))"
proof -
  have p1: "JSON_parse reading_runtime globs_tsconfig = Some globs_tsconfig_value"
    by (simp add: reading_runtime_def sample_runtime_def)
  have p2: "JSON_parse reading_runtime globs_tsconfig_stripped = Some globs_tsconfig_stripped_value"
    by (simp add: reading_runtime_def sample_runtime_def globs_tsconfig_def
        globs_tsconfig_stripped_def)
  have p3: "JSON_parse reading_runtime url_tsconfig = Some url_tsconfig_value"
    by (simp add: reading_runtime_def sample_runtime_def globs_tsconfig_def
        globs_tsconfig_stripped_def url_tsconfig_def)
  have p4: "JSON_parse reading_runtime url_tsconfig_stripped = None"
    by (simp add: reading_runtime_def sample_runtime_def globs_tsconfig_def
        globs_tsconfig_stripped_def url_tsconfig_def url_tsconfig_stripped_def)
  have m1: "merged_compilerOptions reading_runtime (Some globs_tsconfig) =
      Some [(''typeRoots'', JArr [JStr ''types*'']),
            (''noEmit'', JBool True),
            (''module'', JStr ''ESNext''),
            (''target'', JStr ''ES2020''),
            (''outDir'', JStr ''dist''),
            (''rootDir'', JStr ''src''),
            (''strict'', JBool True),
            (''esModuleInterop'', JBool True),
            (''moduleResolution'', JStr ''node'')]"
    by (simp add: merged_compilerOptions_def globs_tsconfig_strips p2
        globs_tsconfig_stripped_value_def spread_into_def default_compilerOptions_def)
  have m2: "merged_compilerOptions reading_runtime (Some url_tsconfig) = None"
    by (simp add: merged_compilerOptions_def url_tsconfig_strips p4)
  have r1: "setupTsConfig reading_runtime (sample_state [(''tsconfig.json'', globs_tsconfig)] []) =
     logSuccess ''tsconfig.json ready''
       (writeJson reading_runtime ''tsconfig.json''
          (tsconfig_with
             [(''typeRoots'', JArr [JStr ''types*'']),
              (''noEmit'', JBool True),
              (''module'', JStr ''ESNext''),
              (''target'', JStr ''ES2020''),
              (''outDir'', JStr ''dist''),
              (''rootDir'', JStr ''src''),
              (''strict'', JBool True),
              (''esModuleInterop'', JBool True),
              (''moduleResolution'', JStr ''node'')])
          (sample_state [(''tsconfig.json'', globs_tsconfig)] []))"
    by (simp add: setupTsConfig_sample m1)
  have r2: "setupTsConfig reading_runtime (sample_state [(''tsconfig.json'', url_tsconfig)] []) =
     logSuccess ''tsconfig.json ready''
       (writeJson reading_runtime ''tsconfig.json'' (tsconfig_with default_compilerOptions)
          (logWarn ''Failed to parse existing tsconfig.json, using default.''
             (sample_state [(''tsconfig.json'', url_tsconfig)] [])))"
    by (simp add: setupTsConfig_sample m2)
  from p1 globs_tsconfig_strips r1 p3 url_tsconfig_strips r2 show ?thesis
    by (intro conjI)
qed



section \<open>Steps, traces and failing commands\<close>

text \<open>
  The properties of whole runs are proved step by step: each function of the tool and
  each handler of the workflow gets a \<open>triple\<close>, and the triples are put together along
  \<open>and_then\<close> and \<open>question\<close>. All of them speak about the trace only.
\<close>

lemma failed_append [simp]: "failed (xs @ ys) = failed xs @ failed ys"
  by (induction xs rule: failed.induct) simp_all

lemma written_append [simp]: "written (xs @ ys) = written xs @ written ys"
  by (induction xs rule: written.induct) simp_all

lemma triple_and_then:
  "triple P f R Q \<Longrightarrow> triple R g R' Q \<Longrightarrow> triple P (\<lambda>s. and_then (f s) g) R' Q"
  unfolding triple_def
proof (intro allI impI)
  fix s
  assume f: "\<forall>s. P s \<longrightarrow> (case f s of Running s' \<Rightarrow> R s' | Stopped oc s' \<Rightarrow> Q oc s')"
    and g: "\<forall>s. R s \<longrightarrow> (case g s of Running s' \<Rightarrow> R' s' | Stopped oc s' \<Rightarrow> Q oc s')"
    and P: "P s"
  show "case and_then (f s) g of Running s' \<Rightarrow> R' s' | Stopped oc s' \<Rightarrow> Q oc s'"
  proof (cases "f s")
    case (Running s1)
    with f P have "R s1" by fastforce
    with g Running show ?thesis by simp
  next
    case (Stopped oc s1)
    with f P show ?thesis by fastforce
  qed
qed

lemma triple_after:
  "triple P f R Q \<Longrightarrow> (\<And>s. P' s \<Longrightarrow> P (h s)) \<Longrightarrow> triple P' (\<lambda>s. f (h s)) R Q"
  by (simp add: triple_def)

lemma triple_Running: "(\<And>s. P s \<Longrightarrow> R (h s)) \<Longrightarrow> triple P (\<lambda>s. Running (h s)) R Q"
  by (simp add: triple_def)

lemma triple_Stopped: "(\<And>s. P s \<Longrightarrow> Q oc (h s)) \<Longrightarrow> triple P (\<lambda>s. Stopped oc (h s)) R Q"
  by (simp add: triple_def)

lemma triple_weaken:
  "triple P f R Q \<Longrightarrow> (\<And>s. P' s \<Longrightarrow> P s) \<Longrightarrow> (\<And>s. R s \<Longrightarrow> R' s) \<Longrightarrow>
   (\<And>oc s. Q oc s \<Longrightarrow> Q' oc s) \<Longrightarrow> triple P' f R' Q'"
  unfolding triple_def by (fastforce split: proc.splits)

lemma triple_question:
  assumes k: "\<And>line. triple P' (callback line) R Q"
    and none: "\<And>s. P s \<Longrightarrow> Q NoInput (emit_event (Prompted prompt) s)"
    and some: "\<And>s rest. P s \<Longrightarrow> P' ((emit_event (Prompted prompt) s)\<lparr>stdin := rest\<rparr>)"
  shows "triple P (question prompt callback) R Q"
  unfolding triple_def
proof (intro allI impI)
  fix s
  assume P: "P s"
  show "case question prompt callback s of Running s' \<Rightarrow> R s' | Stopped oc s' \<Rightarrow> Q oc s'"
  proof (cases "stdin s")
    case Nil
    with none [OF P] show ?thesis by (simp add: question_def emit_event_def)
  next
    case (Cons line rest)
    from some [OF P] have "P' ((emit_event (Prompted prompt) s)\<lparr>stdin := rest\<rparr>)" .
    with k [of line] have
      "case callback line ((emit_event (Prompted prompt) s)\<lparr>stdin := rest\<rparr>) of
         Running s' \<Rightarrow> R s' | Stopped oc s' \<Rightarrow> Q oc s'"
      by (simp add: triple_def)
    with Cons show ?thesis by (simp add: question_def emit_event_def)
  qed
qed

lemma safeExec_fatal: "triple clean (safeExec rt command quiet) clean fatal"
  unfolding triple_def safeExec_def
  by (auto simp: clean_def fatal_def effect_defs Let_def split: prod.splits)

lemma createGitAndIgnore_fatal: "triple clean (createGitAndIgnore rt) clean fatal"
  unfolding createGitAndIgnore_def
  by (rule triple_and_then [OF triple_after [OF safeExec_fatal] triple_Running])
     (simp_all add: clean_def effect_defs)

lemma initNpm_fatal: "triple clean (initNpm rt useDefault) clean fatal"
  unfolding initNpm_def
  by (rule triple_and_then [OF triple_after [OF safeExec_fatal] triple_Running])
     (simp_all add: clean_def effect_defs)

lemma setPackageModule_fatal: "triple clean (setPackageModule rt) clean fatal"
  unfolding setPackageModule_def
  by (rule triple_and_then [OF triple_after [OF safeExec_fatal] triple_Running])
     (simp_all add: clean_def effect_defs)

lemma failed_readJson: "failed (trace (snd (readJson rt p s))) = failed (trace s)"
  by (simp add: readJson_def effect_defs split: option.splits)

lemma failed_setupTsConfig: "failed (trace (setupTsConfig rt s)) = failed (trace s)"
  by (simp add: setupTsConfig_def effect_defs Let_def split: option.splits)

lemma written_setupTsConfig:
  "written (trace (setupTsConfig rt s)) = written (trace s) @ [''tsconfig.json'']"
  by (simp add: setupTsConfig_def effect_defs Let_def split: option.splits)

lemma failed_createSrcMain: "failed (trace (createSrcMain port s)) = failed (trace s)"
  by (simp add: createSrcMain_def effect_defs)

lemma written_createSrcMain:
  "written (trace (createSrcMain port s)) = written (trace s) @ [''src/main.ts'']"
  by (simp add: createSrcMain_def effect_defs)

lemma failed_createProjectDir: "failed (trace (createProjectDir name s)) = failed (trace s)"
  by (simp add: createProjectDir_def effect_defs)

lemma written_createProjectDir: "written (trace (createProjectDir name s)) = written (trace s)"
  by (simp add: createProjectDir_def effect_defs)

text \<open>The steps behind the installation run no command.\<close>

lemma addPackageScripts_clean: "triple clean (addPackageScripts rt) clean (\<lambda>oc. clean)"
  unfolding triple_def addPackageScripts_def
  using failed_readJson
  by (auto simp: clean_def effect_defs Let_def split: prod.splits option.splits
      dest!: arg_cong [where f = snd]) 


lemma on_finish_clean: "triple clean (on_finish projectName) (\<lambda>s. False) (\<lambda>oc. clean)"
  unfolding on_finish_def
  by (rule triple_Stopped) (simp add: clean_def effect_defs)

lemma on_configure_nodemon_clean:
  "triple clean (on_configure_nodemon rt projectName) (\<lambda>s. False) (\<lambda>oc. clean)"
  unfolding on_configure_nodemon_def
  by (rule triple_after [OF on_finish_clean]) (simp add: clean_def configureNodemon_def effect_defs)

lemma on_add_package_scripts_clean:
  "triple clean (on_add_package_scripts rt projectName) (\<lambda>s. False) (\<lambda>oc. clean)"
  unfolding on_add_package_scripts_def
  by (rule triple_and_then [OF addPackageScripts_clean on_configure_nodemon_clean])

lemma clean_fatal: "clean s \<Longrightarrow> fatal oc s"
  by (simp add: clean_def fatal_def)

lemma on_install_dependencies_fatal:
  "triple clean (on_install_dependencies rt projectName) (\<lambda>s. False) fatal"
proof -
  have "triple clean (on_add_package_scripts rt projectName) (\<lambda>s. False) fatal"
    by (rule triple_weaken [OF on_add_package_scripts_clean]) (simp_all add: clean_fatal)
  then have tail: "triple clean
      (\<lambda>s. on_add_package_scripts rt projectName (logSuccess ''Dependencies installed'' s))
      (\<lambda>s. False) fatal"
    by (rule triple_after) (simp add: clean_def effect_defs)
  have first: "triple clean
      (\<lambda>s. safeExec rt ''npm install express'' False (logStep ''Installing dependencies...'' s))
      clean fatal"
    by (rule triple_after [OF safeExec_fatal]) (simp add: clean_def effect_defs)
  show ?thesis
    unfolding on_install_dependencies_def
    by (rule triple_and_then [OF first triple_and_then [OF safeExec_fatal tail]])
qed

lemma on_initialize_git_fatal:
  "triple clean (on_initialize_git rt projectName) (\<lambda>s. False) fatal"
  unfolding on_initialize_git_def
  by (rule triple_and_then [OF createGitAndIgnore_fatal on_install_dependencies_fatal])

lemma on_setup_tsconfig_fatal:
  "triple clean (on_setup_tsconfig rt projectName) (\<lambda>s. False) fatal"
proof -
  have ask: "triple clean
      (question ''Enter port number (default: 3000): ''
        (\<lambda>port s. on_initialize_git rt projectName (createSrcMain (portNumber_of port) s)))
      (\<lambda>s. False) fatal"
  proof (rule triple_question [where P' = clean])
    fix line
    show "triple clean
        (\<lambda>s. on_initialize_git rt projectName (createSrcMain (portNumber_of line) s))
        (\<lambda>s. False) fatal"
      by (rule triple_after [OF on_initialize_git_fatal])
         (simp add: clean_def failed_createSrcMain)
  qed (simp_all add: clean_def fatal_def emit_event_def)
  show ?thesis
    unfolding on_setup_tsconfig_def
    by (rule triple_after [OF ask]) (simp add: clean_def failed_setupTsConfig)
qed

lemma on_use_default_npm_init_fatal:
  "triple clean (on_use_default_npm_init rt projectName) (\<lambda>s. False) fatal"
  unfolding on_use_default_npm_init_def
proof (rule triple_question [where P' = clean])
  fix answer
  show "triple clean
      (\<lambda>s. and_then (initNpm rt (useDefault_of answer) s)
         (\<lambda>s. and_then (setPackageModule rt s) (on_setup_tsconfig rt projectName)))
      (\<lambda>s. False) fatal"
    by (rule triple_and_then [OF initNpm_fatal
          triple_and_then [OF setPackageModule_fatal on_setup_tsconfig_fatal]])
qed (simp_all add: clean_def fatal_def emit_event_def)

lemma on_initialize_project_fatal:
  "triple clean (on_initialize_project rt) (\<lambda>s. False) fatal"
  unfolding on_initialize_project_def
proof (rule triple_question [where P' = clean])
  fix name
  show "triple clean
      (\<lambda>s. on_use_default_npm_init rt (projectName_of name)
         (createProjectDir (projectName_of name) s))
      (\<lambda>s. False) fatal"
    by (rule triple_after [OF on_use_default_npm_init_fatal])
       (simp add: clean_def failed_createProjectDir)
qed (simp_all add: clean_def fatal_def emit_event_def)

lemma createProject_fatal:
  "\<exists>oc s. createProject rt fs ds input = Stopped oc s \<and> fatal oc s"
proof -
  have "clean (initial_state fs ds input)"
    by (simp add: clean_def initial_state_def)
  with on_initialize_project_fatal [of rt] show ?thesis
    unfolding triple_def createProject_def
    by (cases "on_initialize_project rt (initial_state fs ds input)") auto
qed

lemmas step_defs =
  createProject_def initial_state_def on_initialize_project_def on_use_default_npm_init_def
  on_setup_tsconfig_def on_initialize_git_def on_install_dependencies_def
  on_add_package_scripts_def on_configure_nodemon_def on_finish_def
  question_def safeExec_def initNpm_def setPackageModule_def createGitAndIgnore_def
  createProjectDir_def createSrcMain_def setupTsConfig_def existsSync_def

lemma trim_demo: "trim ''demo'' = ''demo''"
  by (simp add: trim_def is_space_def)

lemma useDefault_y: "useDefault_of ''y''"
  by (simp add: useDefault_of_def toLowerCase_def lower_char_def trim_def is_space_def)

text \<open>
  C7. A command that exits with a status other than 0 ends the process: \<open>safeExec\<close> logs
  \<open>Command failed:\<close> with the command and exits with status 1, leaving the files and
  directories as the command left them; whatever was to follow does not run. In a whole
  run a failed command is the only one that failed (it is not tried again), the exit
  status is 1, and the trace ends with that command and its error line: the tool does
  nothing behind it.
\<close>

theorem failing_command_is_fatal:
  "(execSync rt command (cwd s) (files s, dirs s) = (status, fs, ds) \<and> status \<noteq> 0 \<longrightarrow>
      safeExec rt command quiet s =
        Stopped (Exited 1)
          (s\<lparr>files := fs, dirs := ds,
             trace := trace s @ [Ran command quiet status,
                                 Logged Error (''Command failed: '' @ command)]\<rparr>) \<and>
      and_then (safeExec rt command quiet s) next_step = safeExec rt command quiet s) \<and>
   (c \<in> set (failed (trace (final_state (createProject rt fs0 ds0 input)))) \<longrightarrow>
      outcome_of (createProject rt fs0 ds0 input) = Some (Exited 1) \<and>
      failed (trace (final_state (createProject rt fs0 ds0 input))) = [c] \<and>
      (\<exists>pre q st. trace (final_state (createProject rt fs0 ds0 input)) =
                     pre @ [Ran c q st, Logged Error (''Command failed: '' @ c)] \<and>
                   st \<noteq> 0 \<and> failed pre = []))"
proof (intro conjI impI)
  assume "execSync rt command (cwd s) (files s, dirs s) = (status, fs, ds) \<and> status \<noteq> 0"
  then show "safeExec rt command quiet s =
        Stopped (Exited 1)
          (s\<lparr>files := fs, dirs := ds,
             trace := trace s @ [Ran command quiet status,
                                 Logged Error (''Command failed: '' @ command)]\<rparr>)"
    by (simp add: safeExec_def effect_defs)
  then show "and_then (safeExec rt command quiet s) next_step = safeExec rt command quiet s"
    by simp
next
  let ?p = "createProject rt fs0 ds0 input"
  assume c: "c \<in> set (failed (trace (final_state ?p)))"
  from createProject_fatal obtain oc s' where p: "?p = Stopped oc s'" and f: "fatal oc s'"
    by blast
  from c p have "failed (trace s') \<noteq> []" by auto
  with f obtain pre c' q st where oc: "oc = Exited 1"
    and tr: "trace s' = pre @ [Ran c' q st, Logged Error (''Command failed: '' @ c')]"
    and st: "st \<noteq> 0" and pre: "failed pre = []"
    unfolding fatal_def by blast
  from tr st pre have fl: "failed (trace s') = [c']" by simp
  with c p have cc: "c' = c" by simp
  show "outcome_of ?p = Some (Exited 1)" using p oc by simp
  show "failed (trace (final_state ?p)) = [c]" using p fl cc by simp
  show "\<exists>pre q st. trace (final_state ?p) =
                     pre @ [Ran c q st, Logged Error (''Command failed: '' @ c)] \<and>
                   st \<noteq> 0 \<and> failed pre = []"
    using p tr st pre cc by auto
qed

theorem failing_command_is_fatal_witness:
  "execSync (sample_runtime [] [''git init'']) ''git init'' (cwd (sample_state [] []))
      (files (sample_state [] []), dirs (sample_state [] [])) =
      (1, files (sample_state [] []), dirs (sample_state [] [])) \<and>
   safeExec (sample_runtime [] [''git init'']) ''git init'' True (sample_state [] []) =
     Stopped (Exited 1)
       ((sample_state [] [])\<lparr>files := files (sample_state [] []), dirs := dirs (sample_state [] []),
          trace := trace (sample_state [] []) @
            [Ran ''git init'' True 1, Logged Error (''Command failed: '' @ ''git init'')]\<rparr>) \<and>
   ''npm init -y'' \<in> set (failed (trace (final_state
      (createProject (sample_runtime [] [''npm init -y'']) Map.empty {} [''demo'', ''y''])))) \<and>
   outcome_of (createProject (sample_runtime [] [''npm init -y'']) Map.empty {} [''demo'', ''y''])
     = Some (Exited 1) \<and>
   failed (trace (final_state
      (createProject (sample_runtime [] [''npm init -y'']) Map.empty {} [''demo'', ''y''])))
     = [''npm init -y'']"
proof -
  have run: "execSync (sample_runtime [] [''git init'']) ''git init'' (cwd (sample_state [] []))
      (files (sample_state [] []), dirs (sample_state [] [])) =
      (1, files (sample_state [] []), dirs (sample_state [] [])) \<and> (1::nat) \<noteq> 0"
    by (simp add: sample_runtime_def)
  have fails: "''npm init -y'' \<in> set (failed (trace (final_state
      (createProject (sample_runtime [] [''npm init -y'']) Map.empty {} [''demo'', ''y'']))))"
    by (simp add: step_defs effect_defs sample_runtime_def projectName_of_def trim_demo useDefault_y)
  from failing_command_is_fatal
    [where rt = "sample_runtime [] [''git init'']" and command = "''git init''"
       and s = "sample_state [] []" and status = 1 and fs = "files (sample_state [] [])"
       and ds = "dirs (sample_state [] [])" and quiet = True]
    run
  have one: "safeExec (sample_runtime [] [''git init'']) ''git init'' True (sample_state [] []) =
     Stopped (Exited 1)
       ((sample_state [] [])\<lparr>files := files (sample_state [] []), dirs := dirs (sample_state [] []),
          trace := trace (sample_state [] []) @
            [Ran ''git init'' True 1, Logged Error (''Command failed: '' @ ''git init'')]\<rparr>)"
    by blast
  from failing_command_is_fatal
    [where rt = "sample_runtime [] [''npm init -y'']" and c = "''npm init -y''"
       and ?fs0.0 = Map.empty and ?ds0.0 = "{}" and input = "[''demo'', ''y'']"]
    fails
  have two: "outcome_of (createProject (sample_runtime [] [''npm init -y'']) Map.empty {} [''demo'', ''y''])
     = Some (Exited 1) \<and>
   failed (trace (final_state
      (createProject (sample_runtime [] [''npm init -y'']) Map.empty {} [''demo'', ''y''])))
     = [''npm init -y'']"
    by blast
  from run one fails two show ?thesis by blast
qed

section \<open>A failing installation\<close>

text \<open>
  Rules that run the steps of a concrete run without unfolding a \<open>let\<close>: a command of
  the sample runtime, a prompt that finds a line, and \<open>setupTsConfig\<close> where there is no
  file yet.
\<close>

lemma safeExec_sample:
  "safeExec (sample_runtime ps failing) command quiet s =
     (if command \<in> set failing
      then Stopped (Exited 1) (logError (''Command failed: '' @ command) (emit_event (Ran command quiet 1) s))
      else Running (emit_event (Ran command quiet 0) s))"
  by (simp add: safeExec_def sample_runtime_def emit_event_def)

lemma question_line:
  "stdin s = line # rest \<Longrightarrow>
   question prompt callback s = callback line ((emit_event (Prompted prompt) s)\<lparr>stdin := rest\<rparr>)"
  by (simp add: question_def emit_event_def)

lemma stdin_emit [simp]: "stdin (emit_event e s) = stdin s"
  by (simp add: emit_event_def)

lemma setupTsConfig_fresh:
  "\<not> existsSync ''tsconfig.json'' s \<Longrightarrow>
   setupTsConfig rt s =
     logSuccess ''tsconfig.json ready''
       (writeJson rt ''tsconfig.json'' (tsconfig_with default_compilerOptions) s)"
  by (simp add: setupTsConfig_def)

lemma safeExec_before_install:
  "command \<notin> set install_commands \<Longrightarrow>
   triple before_nodemon (safeExec rt command quiet) before_nodemon install_halt"
  unfolding triple_def safeExec_def
  by (auto simp: before_nodemon_def install_halt_def effect_defs Let_def split: prod.splits)

lemma safeExec_entry_written:
  "triple entry_written (safeExec rt command quiet) entry_written install_halt"
  unfolding triple_def safeExec_def
  by (auto simp: entry_written_def before_nodemon_def install_halt_def effect_defs Let_def
      split: prod.splits)

lemma clean_install_halt: "clean s \<Longrightarrow> install_halt oc s"
  by (simp add: clean_def install_halt_def)

lemma on_install_dependencies_halt:
  "triple entry_written (on_install_dependencies rt projectName) (\<lambda>s. False) install_halt"
proof -
  have "triple clean (on_add_package_scripts rt projectName) (\<lambda>s. False) install_halt"
    by (rule triple_weaken [OF on_add_package_scripts_clean]) (simp_all add: clean_install_halt)
  then have tail: "triple entry_written
      (\<lambda>s. on_add_package_scripts rt projectName (logSuccess ''Dependencies installed'' s))
      (\<lambda>s. False) install_halt"
    by (rule triple_after) (simp add: clean_def entry_written_def before_nodemon_def effect_defs)
  have first: "triple entry_written
      (\<lambda>s. safeExec rt ''npm install express'' False (logStep ''Installing dependencies...'' s))
      entry_written install_halt"
    by (rule triple_after [OF safeExec_entry_written])
       (simp add: entry_written_def before_nodemon_def effect_defs)
  show ?thesis
    unfolding on_install_dependencies_def
    by (rule triple_and_then [OF first triple_and_then [OF safeExec_entry_written tail]])
qed

lemma createGitAndIgnore_halt:
  "triple entry_written (createGitAndIgnore rt) entry_written install_halt"
  unfolding createGitAndIgnore_def
  by (rule triple_and_then [OF triple_after [OF safeExec_entry_written] triple_Running])
     (simp_all add: entry_written_def before_nodemon_def effect_defs)

lemma on_initialize_git_halt:
  "triple entry_written (on_initialize_git rt projectName) (\<lambda>s. False) install_halt"
  unfolding on_initialize_git_def
  by (rule triple_and_then [OF createGitAndIgnore_halt on_install_dependencies_halt])

lemma on_setup_tsconfig_halt:
  "triple before_nodemon (on_setup_tsconfig rt projectName) (\<lambda>s. False) install_halt"
proof -
  have ask: "triple before_nodemon
      (question ''Enter port number (default: 3000): ''
        (\<lambda>port s. on_initialize_git rt projectName (createSrcMain (portNumber_of port) s)))
      (\<lambda>s. False) install_halt"
  proof (rule triple_question [where P' = before_nodemon])
    fix line
    show "triple before_nodemon
        (\<lambda>s. on_initialize_git rt projectName (createSrcMain (portNumber_of line) s))
        (\<lambda>s. False) install_halt"
      by (rule triple_after [OF on_initialize_git_halt])
         (simp add: entry_written_def before_nodemon_def failed_createSrcMain written_createSrcMain)
  qed (simp_all add: before_nodemon_def install_halt_def emit_event_def)
  show ?thesis
    unfolding on_setup_tsconfig_def
    by (rule triple_after [OF ask])
       (simp add: before_nodemon_def failed_setupTsConfig written_setupTsConfig)
qed

lemma initNpm_halt: "triple before_nodemon (initNpm rt useDefault) before_nodemon install_halt"
  unfolding initNpm_def
  by (rule triple_and_then [OF triple_after [OF safeExec_before_install] triple_Running])
     (simp_all add: before_nodemon_def install_commands_def effect_defs)

lemma setPackageModule_halt:
  "triple before_nodemon (setPackageModule rt) before_nodemon install_halt"
  unfolding setPackageModule_def
  by (rule triple_and_then [OF triple_after [OF safeExec_before_install] triple_Running])
     (simp_all add: before_nodemon_def install_commands_def effect_defs)

lemma on_use_default_npm_init_halt:
  "triple before_nodemon (on_use_default_npm_init rt projectName) (\<lambda>s. False) install_halt"
  unfolding on_use_default_npm_init_def
proof (rule triple_question [where P' = before_nodemon])
  fix answer
  show "triple before_nodemon
      (\<lambda>s. and_then (initNpm rt (useDefault_of answer) s)
         (\<lambda>s. and_then (setPackageModule rt s) (on_setup_tsconfig rt projectName)))
      (\<lambda>s. False) install_halt"
    by (rule triple_and_then [OF initNpm_halt
          triple_and_then [OF setPackageModule_halt on_setup_tsconfig_halt]])
qed (simp_all add: before_nodemon_def install_halt_def emit_event_def)

lemma on_initialize_project_halt:
  "triple before_nodemon (on_initialize_project rt) (\<lambda>s. False) install_halt"
  unfolding on_initialize_project_def
proof (rule triple_question [where P' = before_nodemon])
  fix name
  show "triple before_nodemon
      (\<lambda>s. on_use_default_npm_init rt (projectName_of name)
         (createProjectDir (projectName_of name) s))
      (\<lambda>s. False) install_halt"
    by (rule triple_after [OF on_use_default_npm_init_halt])
       (simp add: before_nodemon_def failed_createProjectDir written_createProjectDir)
qed (simp_all add: before_nodemon_def install_halt_def emit_event_def)

lemma createProject_install_halt:
  "\<exists>oc s. createProject rt fs ds input = Stopped oc s \<and> install_halt oc s"
proof -
  have "before_nodemon (initial_state fs ds input)"
    by (simp add: before_nodemon_def initial_state_def)
  with on_initialize_project_halt [of rt] show ?thesis
    unfolding triple_def createProject_def
    by (cases "on_initialize_project rt (initial_state fs ds input)") auto
qed

text \<open>
  C6, as amended. In every run in which a command of the installation step exits with a
  status other than 0, the process exits with status 1 and \<open>nodemon.json\<close> has not been
  written; \<open>src/main.ts\<close> has been written by then, since the entry point is generated
  in the handler of \<open>setup-tsconfig\<close>, which runs before \<open>install-dependencies\<close>.
\<close>

theorem failing_install_halts_before_nodemon:
  assumes "c \<in> set install_commands"
    and "c \<in> set (failed (trace (final_state (createProject rt fs ds input))))"
  shows "outcome_of (createProject rt fs ds input) = Some (Exited 1) \<and>
         ''nodemon.json'' \<notin> set (written (trace (final_state (createProject rt fs ds input)))) \<and>
         ''src/main.ts'' \<in> set (written (trace (final_state (createProject rt fs ds input))))"
proof -
  from createProject_install_halt obtain oc s
    where p: "createProject rt fs ds input = Stopped oc s" and h: "install_halt oc s"
    by blast
  from assms p h show ?thesis
    by (auto simp: install_halt_def)
qed

lemmas sample_run_defs =
  createProject_def initial_state_def on_initialize_project_def on_use_default_npm_init_def
  on_setup_tsconfig_def on_initialize_git_def on_install_dependencies_def createGitAndIgnore_def
  setupTsConfig_fresh createSrcMain_def existsSync_def
  question_line initNpm_def setPackageModule_def safeExec_sample createProjectDir_def effect_defs
  projectName_of_def trim_demo useDefault_y

text \<open>
  The run with the answers \<open>demo\<close>, \<open>y\<close> and \<open>8080\<close> in which \<open>npm install express\<close>
  fails: when it stops with status 1 the entry point is among the files written.
\<close>

theorem failing_install_after_entrypoint_counterexample:
  "''npm install express'' \<in> set (failed (trace (final_state
      (createProject (sample_runtime [] [''npm install express'']) Map.empty {}
         [''demo'', ''y'', ''8080'']))))  \<and>
   outcome_of (createProject (sample_runtime [] [''npm install express'']) Map.empty {}
         [''demo'', ''y'', ''8080'']) = Some (Exited 1) \<and>
   written (trace (final_state
      (createProject (sample_runtime [] [''npm install express'']) Map.empty {}
         [''demo'', ''y'', ''8080'']))) = [''tsconfig.json'', ''src/main.ts'', ''.gitignore'']"
  by (simp add: sample_run_defs)

theorem failing_install_halts_before_nodemon_witness:
  "''npm install -D typescript ts-node nodemon @types/node @types/express'' \<in> set install_commands \<and>
   ''npm install -D typescript ts-node nodemon @types/node @types/express'' \<in> set (failed (trace (final_state
      (createProject
         (sample_runtime [] [''npm install -D typescript ts-node nodemon @types/node @types/express''])
         Map.empty {} [''demo'', ''y'', ''8080''])))) \<and>
   outcome_of (createProject
         (sample_runtime [] [''npm install -D typescript ts-node nodemon @types/node @types/express''])
         Map.empty {} [''demo'', ''y'', ''8080'']) = Some (Exited 1) \<and>
   ''nodemon.json'' \<notin> set (written (trace (final_state (createProject
         (sample_runtime [] [''npm install -D typescript ts-node nodemon @types/node @types/express''])
         Map.empty {} [''demo'', ''y'', ''8080'']))))  \<and>
   ''src/main.ts'' \<in> set (written (trace (final_state (createProject
         (sample_runtime [] [''npm install -D typescript ts-node nodemon @types/node @types/express''])
         Map.empty {} [''demo'', ''y'', ''8080'']))))"
proof -
  have a: "''npm install -D typescript ts-node nodemon @types/node @types/express'' \<in> set install_commands"
    by (simp add: install_commands_def)
  have b: "''npm install -D typescript ts-node nodemon @types/node @types/express'' \<in> set (failed (trace (final_state
      (createProject
         (sample_runtime [] [''npm install -D typescript ts-node nodemon @types/node @types/express''])
         Map.empty {} [''demo'', ''y'', ''8080'']))))"
    by (simp add: sample_run_defs)
  from failing_install_halts_before_nodemon [OF a b] a b show ?thesis by blast
qed

section \<open>The scripts of the manifest\<close>

lemma scripts_added_object:
  assumes "(\<not> truthy (map_of ps ''scripts'') \<and> sc = []) \<or> map_of ps ''scripts'' = Some (JObj sc)"
  shows "scripts_added (JObj ps) =
           Some (JObj (AList.update ''scripts''
             (JObj (AList.update ''start'' (JStr ''node dist/main.js'')
                     (AList.update ''build'' (JStr ''tsc'')
                       (AList.update ''dev'' (JStr ''nodemon'') sc)))) ps))"
  using assms by (auto simp: scripts_added_def)

text \<open>
  C5, as amended. For a manifest object whose \<open>scripts\<close> member is missing, falsy or an
  object, \<open>addPackageScripts\<close> writes the manifest with \<open>scripts.dev\<close>,
  \<open>scripts.build\<close> and \<open>scripts.start\<close> set to the three fixed commands; every other
  script and every other top-level member is as it was, and nothing is logged but the
  success line.
\<close>

theorem addPackageScripts_sets_scripts:
  assumes manifest: "readJson rt ''package.json'' (logStep ''Adding scripts to package.json...'' s)
                       = (JObj ps, s1)"
    and scripts: "(\<not> truthy (map_of ps ''scripts'') \<and> sc = []) \<or>
                  map_of ps ''scripts'' = Some (JObj sc)"
    and sc': "sc' = AList.update ''start'' (JStr ''node dist/main.js'')
                      (AList.update ''build'' (JStr ''tsc'')
                        (AList.update ''dev'' (JStr ''nodemon'') sc))"
    and ps': "ps' = AList.update ''scripts'' (JObj sc') ps"
  shows "addPackageScripts rt s =
           Running (logSuccess ''Scripts added to package.json''
                     (writeJson rt ''package.json'' (JObj ps') s1)) \<and>
         trace (final_state (addPackageScripts rt s)) =
           trace s1 @ [Wrote (resolve s1 ''package.json'') (JSON_stringify rt (JObj ps')),
                       Logged Success ''Scripts added to package.json''] \<and>
         map_of ps' ''scripts'' = Some (JObj sc') \<and>
         map_of sc' ''dev'' = Some (JStr ''nodemon'') \<and>
         map_of sc' ''build'' = Some (JStr ''tsc'') \<and>
         map_of sc' ''start'' = Some (JStr ''node dist/main.js'') \<and>
         (\<forall>k. k \<noteq> ''dev'' \<and> k \<noteq> ''build'' \<and> k \<noteq> ''start'' \<longrightarrow> map_of sc' k = map_of sc k) \<and>
         (\<forall>k. k \<noteq> ''scripts'' \<longrightarrow> map_of ps' k = map_of ps k)"
proof -
  have run: "addPackageScripts rt s =
             Running (logSuccess ''Scripts added to package.json''
                       (writeJson rt ''package.json'' (JObj ps') s1))"
    using manifest scripts_added_object [OF scripts]
    by (simp add: addPackageScripts_def Let_def sc' ps')
  then have tr: "trace (final_state (addPackageScripts rt s)) =
             trace s1 @ [Wrote (resolve s1 ''package.json'') (JSON_stringify rt (JObj ps')),
                         Logged Success ''Scripts added to package.json'']"
    by (simp add: effect_defs)
  have a: "map_of ps' ''scripts'' = Some (JObj sc')"
    by (simp add: ps' update_conv')
  have b: "map_of sc' ''dev'' = Some (JStr ''nodemon'')"
    "map_of sc' ''build'' = Some (JStr ''tsc'')"
    "map_of sc' ''start'' = Some (JStr ''node dist/main.js'')"
    by (simp_all add: sc' update_conv')
  have c: "\<forall>k. k \<noteq> ''dev'' \<and> k \<noteq> ''build'' \<and> k \<noteq> ''start'' \<longrightarrow> map_of sc' k = map_of sc k"
    by (simp add: sc' update_conv')
  have d: "\<forall>k. k \<noteq> ''scripts'' \<longrightarrow> map_of ps' k = map_of ps k"
    by (simp add: ps' update_conv')
  from run tr a b c d show ?thesis by (intro conjI)
qed

lemma readJson_sample:
  "readJson (sample_runtime [(t, v)] []) ''package.json''
     (logStep m (sample_state [(''package.json'', t)] [])) =
     (v, logStep m (sample_state [(''package.json'', t)] []))"
  by (simp add: readJson_def existsSync_def readFileSync_def effect_defs sample_state_def
      sample_runtime_def)

text \<open>
  A manifest whose \<open>scripts\<close> member is the text \<open>x\<close>: the assignment to
  \<open>pkg.scripts.dev\<close> is a TypeError, nobody catches it and nothing is written. When the
  member is an array the assignments succeed on the array and the manifest is written
  without the three scripts.
\<close>

theorem addPackageScripts_text_scripts_counterexample:
  "scripts_added odd_manifest = None \<and>
   outcome_of (addPackageScripts (sample_runtime [(odd_manifest_text, odd_manifest)] [])
      (sample_state [(''package.json'', odd_manifest_text)] [])) = Some (Uncaught ''TypeError'') \<and>
   written (trace (final_state
     (addPackageScripts (sample_runtime [(odd_manifest_text, odd_manifest)] [])
        (sample_state [(''package.json'', odd_manifest_text)] [])))) = [] \<and>
   scripts_added (JObj [(''name'', JStr ''demo''), (''scripts'', JArr [JStr ''x''])]) =
     Some (JObj [(''name'', JStr ''demo''), (''scripts'', JArr [JStr ''x''])])"
proof -
  have none: "scripts_added odd_manifest = None"
    by (simp add: scripts_added_def odd_manifest_def)
  have "addPackageScripts (sample_runtime [(odd_manifest_text, odd_manifest)] [])
      (sample_state [(''package.json'', odd_manifest_text)] []) =
      Stopped (Uncaught ''TypeError'')
        (logStep ''Adding scripts to package.json...''
          (sample_state [(''package.json'', odd_manifest_text)] []))"
    by (simp add: addPackageScripts_def Let_def readJson_sample none)
  then have stop: "outcome_of (addPackageScripts (sample_runtime [(odd_manifest_text, odd_manifest)] [])
      (sample_state [(''package.json'', odd_manifest_text)] [])) = Some (Uncaught ''TypeError'')"
    and unwritten: "written (trace (final_state
     (addPackageScripts (sample_runtime [(odd_manifest_text, odd_manifest)] [])
        (sample_state [(''package.json'', odd_manifest_text)] [])))) = []"
    by (simp_all add: effect_defs sample_state_def)
  have kept: "scripts_added (JObj [(''name'', JStr ''demo''), (''scripts'', JArr [JStr ''x''])]) =
     Some (JObj [(''name'', JStr ''demo''), (''scripts'', JArr [JStr ''x''])])"
    by (simp add: scripts_added_def)
  from none stop unwritten kept show ?thesis by (intro conjI)
qed

theorem addPackageScripts_sets_scripts_witness:
  "readJson (sample_runtime [(lint_manifest_text, lint_manifest)] []) ''package.json''
     (logStep ''Adding scripts to package.json...''
        (sample_state [(''package.json'', lint_manifest_text)] [])) =
     (JObj [(''name'', JStr ''demo''),
            (''scripts'', JObj [(''lint'', JStr ''eslint .''), (''start'', JStr ''node old.js'')])],
      logStep ''Adding scripts to package.json...''
        (sample_state [(''package.json'', lint_manifest_text)] [])) \<and>
   map_of [(''name'', JStr ''demo''),
           (''scripts'', JObj [(''lint'', JStr ''eslint .''), (''start'', JStr ''node old.js'')])]
     ''scripts'' = Some (JObj [(''lint'', JStr ''eslint .''), (''start'', JStr ''node old.js'')]) \<and>
   addPackageScripts (sample_runtime [(lint_manifest_text, lint_manifest)] [])
       (sample_state [(''package.json'', lint_manifest_text)] []) =
     Running (logSuccess ''Scripts added to package.json''
               (writeJson (sample_runtime [(lint_manifest_text, lint_manifest)] [])
                  ''package.json''
                  (JObj [(''name'', JStr ''demo''),
                         (''scripts'', JObj [(''lint'', JStr ''eslint .''),
                                             (''start'', JStr ''node dist/main.js''),
                                             (''dev'', JStr ''nodemon''),
                                             (''build'', JStr ''tsc'')])])
                  (logStep ''Adding scripts to package.json...''
                     (sample_state [(''package.json'', lint_manifest_text)] []))))"
proof -
  have manifest:
    "readJson (sample_runtime [(lint_manifest_text, lint_manifest)] []) ''package.json''
       (logStep ''Adding scripts to package.json...''
          (sample_state [(''package.json'', lint_manifest_text)] [])) =
       (JObj [(''name'', JStr ''demo''),
              (''scripts'', JObj [(''lint'', JStr ''eslint .''), (''start'', JStr ''node old.js'')])],
        logStep ''Adding scripts to package.json...''
          (sample_state [(''package.json'', lint_manifest_text)] []))"
    by (simp add: readJson_sample lint_manifest_def)
  have member: "map_of [(''name'', JStr ''demo''),
           (''scripts'', JObj [(''lint'', JStr ''eslint .''), (''start'', JStr ''node old.js'')])]
     ''scripts'' = Some (JObj [(''lint'', JStr ''eslint .''), (''start'', JStr ''node old.js'')])"
    by simp
  have sc': "[(''lint'', JStr ''eslint .''), (''start'', JStr ''node dist/main.js''),
              (''dev'', JStr ''nodemon''), (''build'', JStr ''tsc'')] =
      AList.update ''start'' (JStr ''node dist/main.js'')
        (AList.update ''build'' (JStr ''tsc'')
          (AList.update ''dev'' (JStr ''nodemon'')
            [(''lint'', JStr ''eslint .''), (''start'', JStr ''node old.js'')]))"
    by simp
  have ps': "[(''name'', JStr ''demo''),
              (''scripts'', JObj [(''lint'', JStr ''eslint .''), (''start'', JStr ''node dist/main.js''),
                                  (''dev'', JStr ''nodemon''), (''build'', JStr ''tsc'')])] =
      AList.update ''scripts''
        (JObj [(''lint'', JStr ''eslint .''), (''start'', JStr ''node dist/main.js''),
               (''dev'', JStr ''nodemon''), (''build'', JStr ''tsc'')])
        [(''name'', JStr ''demo''),
         (''scripts'', JObj [(''lint'', JStr ''eslint .''), (''start'', JStr ''node old.js'')])]"
    by simp
  from manifest member
    addPackageScripts_sets_scripts [OF manifest disjI2 [OF member] sc' ps', THEN conjunct1]
  show ?thesis by (intro conjI)
qed

section \<open>The answers to the prompts\<close>

lemma trim_empty_iff: "trim s = [] \<longleftrightarrow> (\<forall>c\<in>set s. is_space c)"
proof -
  have "trim s = [] \<longleftrightarrow> (\<forall>x\<in>set (dropWhile is_space s). is_space x)"
    by (simp add: trim_def dropWhile_eq_Nil_conv)
  also have "\<dots> \<longleftrightarrow> dropWhile is_space s = []"
  proof
    assume all: "\<forall>x\<in>set (dropWhile is_space s). is_space x"
    show "dropWhile is_space s = []"
    proof (rule ccontr)
      assume ne: "dropWhile is_space s \<noteq> []"
      then have "\<not> is_space (hd (dropWhile is_space s))" by (rule hd_dropWhile)
      moreover from ne have "hd (dropWhile is_space s) \<in> set (dropWhile is_space s)" by simp
      ultimately show False using all by blast
    qed
  next
    assume "dropWhile is_space s = []"
    then show "\<forall>x\<in>set (dropWhile is_space s). is_space x"
      by (simp only: list.set ball_empty)
  qed
  also have "\<dots> \<longleftrightarrow> (\<forall>c\<in>set s. is_space c)"
    by (simp add: dropWhile_eq_Nil_conv)
  finally show ?thesis .
qed

lemma trim_blank: "\<forall>c\<in>set s. is_space c \<Longrightarrow> trim s = []"
  by (simp add: trim_empty_iff)

text \<open>
  C4. An answer that consists of white space only is empty once trimmed, and the values
  computed from three such answers are the defaults: the project name \<open>my-app\<close>, the
  default mode of \<open>npm init\<close>, and the port 3000.
\<close>

theorem blank_answers_give_defaults:
  assumes "\<forall>c\<in>set name. is_space c"
    and "\<forall>c\<in>set answer. is_space c"
    and "\<forall>c\<in>set port. is_space c"
  shows "trim name = [] \<and> trim answer = [] \<and> trim port = [] \<and>
         projectName_of name = ''my-app'' \<and>
         useDefault_of answer \<and>
         portNumber_of port = PortNumber 3000 \<and>
         port_text (portNumber_of port) = ''3000''"
  using assms
  by (simp add: trim_blank projectName_of_def useDefault_of_def portNumber_of_def toLowerCase_def)

theorem blank_answers_give_defaults_witness:
  "trim ''  '' = [] \<and> trim [CHR 0x09, CHR 0xA0] = [] \<and>
   projectName_of ''  '' = ''my-app'' \<and>
   useDefault_of [] \<and>
   portNumber_of [CHR 0x09, CHR 0xA0] = PortNumber 3000"
proof -
  have a: "\<forall>c\<in>set ''  ''. is_space c" by (simp add: is_space_def)
  have b: "\<forall>c\<in>set []. is_space c" by simp
  have c: "\<forall>c\<in>set [CHR 0x09, CHR 0xA0]. is_space c" by (simp add: is_space_def)
  from blank_answers_give_defaults [OF a b c] show ?thesis by simp
qed

lemma lower_char_n: "lower_char c = CHR ''n'' \<longleftrightarrow> c = CHR ''n'' \<or> c = CHR ''N''"
proof -
  define n where "n = (of_char c :: nat)"
  have lt: "n < 256" by (simp add: n_def)
  have n110: "c = CHR ''n'' \<longleftrightarrow> n = 110"
  proof -
    have e: "(of_char CHR ''n'' :: nat) = 110" by simp
    show ?thesis unfolding n_def e [symmetric] by (simp only: of_char_eq_iff)
  qed
  have n78: "c = CHR ''N'' \<longleftrightarrow> n = 78"
  proof -
    have e: "(of_char CHR ''N'' :: nat) = 78" by simp
    show ?thesis unfolding n_def e [symmetric] by (simp only: of_char_eq_iff)
  qed
  show ?thesis
  proof (cases "(65 \<le> n \<and> n \<le> 90) \<or> (192 \<le> n \<and> n \<le> 222 \<and> n \<noteq> 215)")
    case True
    then have small: "n + 32 < 256" by auto
    from True have lc: "lower_char c = char_of (n + 32)"
      by (simp add: lower_char_def n_def)
    have "char_of (n + 32) = CHR ''n'' \<longleftrightarrow> (of_char (char_of (n + 32) :: char) :: nat) = of_char CHR ''n''"
      by (simp only: of_char_eq_iff)
    also have "\<dots> \<longleftrightarrow> n + 32 = 110"
      using small by simp
    finally have "lower_char c = CHR ''n'' \<longleftrightarrow> n = 78"
      using lc by auto
    moreover from True have "n \<noteq> 110" by auto
    ultimately show ?thesis using n110 n78 by simp
  next
    case False
    then have lc: "lower_char c = c"
      by (simp add: lower_char_def n_def del: de_Morgan_disj de_Morgan_conj)
    from False have "n \<noteq> 78" by auto
    with lc n110 n78 show ?thesis by simp
  qed
qed

lemma toLowerCase_n: "toLowerCase s = ''n'' \<longleftrightarrow> s = ''n'' \<or> s = ''N''"
proof (cases s)
  case Nil
  then show ?thesis by (simp add: toLowerCase_def)
next
  case (Cons c cs)
  then show ?thesis by (cases cs) (auto simp: toLowerCase_def lower_char_n)
qed

text \<open>
  C10. The mode of \<open>npm init\<close> is the interactive one exactly when the trimmed,
  lower-cased answer is \<open>n\<close>, that is when the trimmed answer is \<open>n\<close> or \<open>N\<close>; every
  other answer (\<open>no\<close>, \<open>NO\<close>, any other text, the blank answer) runs \<open>npm init -y\<close>.
\<close>

theorem interactive_only_on_n:
  "(useDefault_of answer \<longleftrightarrow> trim answer \<noteq> ''n'' \<and> trim answer \<noteq> ''N'') \<and>
   useDefault_of ''no'' \<and> useDefault_of ''NO'' \<and> useDefault_of ''x'' \<and> useDefault_of [] \<and>
   \<not> useDefault_of ''n'' \<and> \<not> useDefault_of '' N '' \<and>
   initNpm rt (useDefault_of answer) s =
     and_then
       (safeExec rt (if trim answer = ''n'' \<or> trim answer = ''N'' then ''npm init'' else ''npm init -y'')
          False (logStep ''Initializing npm...'' s))
       (\<lambda>s. Running (logSuccess ''npm initialized'' s))"
proof -
  have iff: "useDefault_of a \<longleftrightarrow> trim a \<noteq> ''n'' \<and> trim a \<noteq> ''N''" for a
    by (simp add: useDefault_of_def toLowerCase_n)
  have "trim ''no'' = ''no''" "trim ''NO'' = ''NO''" "trim ''x'' = ''x''" "trim [] = []"
    "trim ''n'' = ''n''" "trim '' N '' = ''N''"
    by (simp_all add: trim_def is_space_def)
  then have ex: "useDefault_of ''no''" "useDefault_of ''NO''" "useDefault_of ''x''"
    "useDefault_of []" "\<not> useDefault_of ''n''" "\<not> useDefault_of '' N ''"
    by (simp_all add: iff)
  have "initNpm rt (useDefault_of answer) s =
     and_then
       (safeExec rt (if trim answer = ''n'' \<or> trim answer = ''N'' then ''npm init'' else ''npm init -y'')
          False (logStep ''Initializing npm...'' s))
       (\<lambda>s. Running (logSuccess ''npm initialized'' s))"
    by (simp add: initNpm_def iff)
  with iff [of answer] ex show ?thesis by simp
qed

section \<open>The entry point\<close>


section \<open>Comments and strings\<close>

text \<open>
  C8. \<open>removeJsonComments\<close> on two configuration texts without any comment: in the
  first, which holds the \<open>include\<close> pattern that the tool itself writes, the characters
  \<open>/**/\<close> inside the string are taken for a block comment; in the second everything
  from the \<open>//\<close> of the address on is taken for a line comment, and what is left is
  no JSON text.
\<close>

theorem removeJsonComments_alters_strings:
  \<open>removeJsonComments ''{"include": ["src/**/*"]}'' = ''{"include": ["src*"]}'' \<and>
   removeJsonComments ''{"$schema": "https://json.schemastore.org/tsconfig"}'' = ''{"$schema": "https:''\<close>
  by (simp add: removeJsonComments_def trim_def is_space_def is_line_terminator_def)

end